theory Spec2Isabelle
  imports Main
begin

unbundle bit_operations_syntax

section \<open>Bytes, C strings and the C library functions the codec calls\<close>

text \<open>
  A byte is a \<^typ>\<open>char\<close>. A C string (\<^verbatim>\<open>char *\<close>) is represented by the list of
  its bytes before the terminating NUL, so a value of a \<^verbatim>\<open>char *\<close> field never
  contains NUL. A line buffer filled by \<^verbatim>\<open>getline\<close> may contain NUL bytes; the string
  functions of the C library see only the part before the first one, which is
  \<open>cstr\<close> of the buffer.
\<close>

abbreviation NUL :: char where "NUL \<equiv> CHR 0x00"
abbreviation CR :: char where "CR \<equiv> CHR 0x0D"
abbreviation LF :: char where "LF \<equiv> CHR 0x0A"
abbreviation CRLF :: string where "CRLF \<equiv> [CR, LF]"

definition cstr :: "string \<Rightarrow> string" where
  "cstr b = takeWhile (\<lambda>c. c \<noteq> NUL) b"

text \<open>\<^verbatim>\<open>s[i]\<close> for a C string: the byte at \<open>i\<close>, the terminator at the end.\<close>

definition char_at :: "string \<Rightarrow> nat \<Rightarrow> char" where
  "char_at s i = (if i < length s then s ! i else NUL)"

definition strlen :: "string \<Rightarrow> nat" where
  "strlen s = length s"

definition strcspn :: "string \<Rightarrow> string \<Rightarrow> nat" where
  "strcspn s reject = length (takeWhile (\<lambda>c. c \<notin> set reject) s)"

definition strspn :: "string \<Rightarrow> string \<Rightarrow> nat" where
  "strspn s accept = length (takeWhile (\<lambda>c. c \<in> set accept) s)"

definition strndup :: "string \<Rightarrow> nat \<Rightarrow> string" where
  "strndup s n = take n s"

text \<open>
  \<^verbatim>\<open>strtok_r(str, delim, &saveptr)\<close>: skip leading delimiters; no token if nothing is
  left; otherwise the token runs to the next delimiter, which is overwritten by NUL, and
  the save pointer is set behind it (or onto the terminator when the token ends the
  string). The result is the token and the string the save pointer points to.
\<close>

definition strtok_r :: "string \<Rightarrow> string \<Rightarrow> string option \<times> string" where
  "strtok_r s delim =
     (let s1 = drop (strspn s delim) s in
      if s1 = [] then (None, s1)
      else
        let n = strcspn s1 delim; e = drop n s1 in
        if e = [] then (Some (take n s1), e) else (Some (take n s1), drop 1 e))"

text \<open>\<^verbatim>\<open>strtol(nptr, &endptr, 10)\<close> with a 64-bit \<^verbatim>\<open>long\<close>: value and end pointer.\<close>

definition isspace :: "char \<Rightarrow> bool" where
  "isspace c \<longleftrightarrow> c \<in> {CHR '' '', CHR 0x09, LF, CHR 0x0B, CHR 0x0C, CR}"

definition isdigit :: "char \<Rightarrow> bool" where
  "isdigit c \<longleftrightarrow> c \<in> set ''0123456789''"

definition digit_val :: "char \<Rightarrow> int" where
  "digit_val c = int (of_char c) - 48"

definition LONG_MAX :: int where "LONG_MAX = 2 ^ 63 - 1"
definition LONG_MIN :: int where "LONG_MIN = - (2 ^ 63)"

definition strtol :: "string \<Rightarrow> int \<times> string" where
  "strtol nptr =
     (let s1 = dropWhile isspace nptr;
          neg = (s1 \<noteq> [] \<and> hd s1 = CHR ''-'');
          s2 = (if s1 \<noteq> [] \<and> (hd s1 = CHR ''-'' \<or> hd s1 = CHR ''+'') then tl s1 else s1);
          ds = takeWhile isdigit s2
      in if ds = [] then (0, nptr)
         else
           let v = foldl (\<lambda>a d. 10 * a + digit_val d) 0 ds;
               r = (if neg then - v else v)
           in (max LONG_MIN (min LONG_MAX r), dropWhile isdigit s2))"

text \<open>The conversion \<^verbatim>\<open>%ld\<close> of \<^verbatim>\<open>fprintf\<close>.\<close>

definition digit_char :: "nat \<Rightarrow> char" where
  "digit_char d = char_of (48 + d)"

function show_nat :: "nat \<Rightarrow> string" where
  "show_nat n = (if n < 10 then [digit_char n] else show_nat (n div 10) @ [digit_char (n mod 10)])"
  by pat_completeness auto
termination
  by (relation "measure id") auto

declare show_nat.simps [simp del]

definition show_long :: "int \<Rightarrow> string" where
  "show_long i = (if i < 0 then CHR ''-'' # show_nat (nat (- i)) else show_nat (nat i))"

section \<open>Streams\<close>

text \<open>
  A \<^verbatim>\<open>FILE *\<close>: the bytes from the read position to the end of the input, the bytes
  written so far, whether the device refuses writes, the error indicator that
  \<^verbatim>\<open>ferror\<close> reports, and whether \<^verbatim>\<open>fclose\<close> has been called. For a socket the input
  is what the peer sends. For a regular file \<open>length (rbuf f)\<close> is what the sequence
  \<^verbatim>\<open>ftell; fseek(SEEK_END); ftell; fseek(SEEK_SET)\<close> computes as \<^verbatim>\<open>file_ln - old_pos\<close>.
\<close>

record FILE =
  rbuf :: string
  wbuf :: string
  wfail :: bool
  ferr :: bool
  closed :: bool

definition EOF :: int where "EOF = - 1"

text \<open>
  The environment of a call: the value \<^verbatim>\<open>errno\<close> has when a read fails (\<^verbatim>\<open>getline\<close>
  does not assign it at the end of the input), and whether the allocator serves requests
  (\<^verbatim>\<open>malloc\<close>, \<^verbatim>\<open>realloc\<close>, \<^verbatim>\<open>strdup\<close>, \<^verbatim>\<open>strndup\<close> return NULL otherwise).
\<close>

record env =
  errno :: int
  heap_ok :: bool

text \<open>
  \<^verbatim>\<open>getline\<close>: the bytes up to and including the next line feed, or up to the end of
  the input; failure (\<open>None\<close>, the C result -1) when no byte is left.
\<close>

definition getline :: "FILE \<Rightarrow> (string \<times> FILE) option" where
  "getline f =
     (if rbuf f = [] then None
      else
        let l = takeWhile (\<lambda>c. c \<noteq> LF) (rbuf f);
            r = dropWhile (\<lambda>c. c \<noteq> LF) (rbuf f)
        in if r = [] then Some (l, f\<lparr>rbuf := []\<rparr>)
           else Some (l @ [LF], f\<lparr>rbuf := drop 1 r\<rparr>))"

text \<open>\<^verbatim>\<open>fgets(buf, n, stream)\<close>: at most \<open>n - 1\<close> bytes, stopping behind a line feed.\<close>

definition fgets :: "nat \<Rightarrow> FILE \<Rightarrow> (string \<times> FILE) option" where
  "fgets n f =
     (if rbuf f = [] then None
      else
        let chunk = take (n - 1) (rbuf f);
            l = takeWhile (\<lambda>c. c \<noteq> LF) chunk;
            m = (if length l < length chunk then length l + 1 else length l)
        in Some (take m (rbuf f), f\<lparr>rbuf := drop m (rbuf f)\<rparr>))"

text \<open>
  \<^verbatim>\<open>fprintf\<close> with the formatted text as argument: a negative result and nothing written
  on a stream that refuses writes, the number of bytes otherwise.
\<close>

definition fprintf :: "FILE \<Rightarrow> string \<Rightarrow> int \<times> FILE" where
  "fprintf f s = (if wfail f then (- 1, f) else (int (length s), f\<lparr>wbuf := wbuf f @ s\<rparr>))"

text \<open>
  \<^verbatim>\<open>fread(buffer, sz, nmemb, f)\<close> reads up to \<open>sz * nmemb\<close> bytes and returns the number
  of complete items of \<open>sz\<close> bytes, the bytes now in the buffer, and the stream.
  \<^verbatim>\<open>fwrite(buffer, sz, nmemb, f)\<close> writes \<open>nmemb\<close> items of \<open>sz\<close> bytes from the buffer and
  returns the number of items written.
\<close>

definition fread :: "FILE \<Rightarrow> nat \<Rightarrow> nat \<Rightarrow> nat \<times> string \<times> FILE" where
  "fread f sz nmemb =
     (let n = min (sz * nmemb) (length (rbuf f))
      in (if sz = 0 then 0 else n div sz, take n (rbuf f), f\<lparr>rbuf := drop n (rbuf f)\<rparr>))"

definition fwrite :: "string \<Rightarrow> nat \<Rightarrow> nat \<Rightarrow> FILE \<Rightarrow> nat \<times> FILE" where
  "fwrite buffer sz nmemb f =
     (if sz = 0 \<or> nmemb = 0 then (0, f)
      else if wfail f then (0, f)
      else (nmemb, f\<lparr>wbuf := wbuf f @ take (sz * nmemb) buffer\<rparr>))"

definition ferror :: "FILE \<Rightarrow> bool" where
  "ferror f = ferr f"

definition fflush :: "FILE \<Rightarrow> int" where
  "fflush f = (if wfail f then EOF else 0)"

definition fclose :: "FILE \<Rightarrow> FILE" where
  "fclose f = f\<lparr>closed := True\<rparr>"

section \<open>The data model of http.h\<close>

datatype http_method =
  HTTP_GET | HTTP_HEAD | HTTP_POST | HTTP_PUT | HTTP_DELETE
  | HTTP_CONNECT | HTTP_OPTIONS | HTTP_TRACE | HTTP_PATCH

record http_header =
  key :: string
  val :: string

record http_status_code =
  code :: int
  description :: string

text \<open>An array with its length field (\<^verbatim>\<open>header\<close>, \<^verbatim>\<open>header_ln\<close>) is a list.\<close>

record http_req =
  "method" :: http_method
  path :: string
  header :: "http_header list"
  body :: "FILE option"

record http_res =
  status_code :: http_status_code
  res_header :: "http_header list"
  res_body :: "FILE option"

text \<open>The results other than 0 of the receiving functions: -1, -2 and -3.\<close>

datatype http_error = Failure | MalformedHead | MalformedHeaders

fun err_code :: "http_error \<Rightarrow> int" where
  "err_code Failure = - 1"
| "err_code MalformedHead = - 2"
| "err_code MalformedHeaders = - 3"

fun HTTP_METHOD_STRINGS :: "http_method \<Rightarrow> string" where
  "HTTP_METHOD_STRINGS HTTP_GET = ''GET''"
| "HTTP_METHOD_STRINGS HTTP_HEAD = ''HEAD''"
| "HTTP_METHOD_STRINGS HTTP_POST = ''POST''"
| "HTTP_METHOD_STRINGS HTTP_PUT = ''PUT''"
| "HTTP_METHOD_STRINGS HTTP_DELETE = ''DELETE''"
| "HTTP_METHOD_STRINGS HTTP_CONNECT = ''CONNECT''"
| "HTTP_METHOD_STRINGS HTTP_OPTIONS = ''OPTIONS''"
| "HTTP_METHOD_STRINGS HTTP_TRACE = ''TRACE''"
| "HTTP_METHOD_STRINGS HTTP_PATCH = ''PATCH''"

text \<open>The indices 0 to 8 of the table, in the order of the enumeration.\<close>

definition http_methods :: "http_method list" where
  "http_methods =
     [HTTP_GET, HTTP_HEAD, HTTP_POST, HTTP_PUT, HTTP_DELETE,
      HTTP_CONNECT, HTTP_OPTIONS, HTTP_TRACE, HTTP_PATCH]"

section \<open>Decoding: extract_header, recv_req, recv_res\<close>

text \<open>
  The loop of \<^verbatim>\<open>extract_header\<close>; the index \<open>i\<close> is the number of headers stored so
  far. The array starts with two slots and is doubled whenever \<open>i\<close> is a power of two,
  so a slot for index \<open>i\<close> always exists; only the failure of \<^verbatim>\<open>realloc\<close> is visible.
  Each result carries the stream as the call leaves it.
\<close>

function extract_header_loop ::
  "env \<Rightarrow> FILE \<Rightarrow> http_header list \<Rightarrow> (http_error + http_header list) \<times> FILE" where
  "extract_header_loop e stream hs =
     (case getline stream of
        None \<Rightarrow> (Inl (if errno e = EOF then MalformedHeaders else Failure), stream)
      | Some (line, s1) \<Rightarrow>
          let buf = cstr line; i = length hs in
          if buf = CRLF then (Inr hs, s1)
          else if i \<ge> 2 \<and> (i AND (i - 1)) = 0 \<and> \<not> heap_ok e then (Inl Failure, s1)
          else
            let delimer = strcspn buf '':'' in
            if char_at buf delimer \<noteq> CHR '':'' then (Inl MalformedHeaders, s1)
            else if \<not> heap_ok e then (Inl Failure, s1)
            else
              let k = strndup buf delimer;
                  v0 = drop (delimer + 1 + strspn (drop (delimer + 1) buf) '' '') buf;
                  v = strndup v0 (strcspn v0 CRLF)
              in extract_header_loop e s1 (hs @ [\<lparr>key = k, val = v\<rparr>]))"
  by pat_completeness auto
termination
  apply (relation "measure (\<lambda>(e, stream, hs). length (rbuf stream))")
   apply simp
  subgoal premises prems for e stream hs x2 line s1
  proof -
    let ?d = "dropWhile (\<lambda>c. c \<noteq> LF) (rbuf stream)"
    from prems(1,2) have g: "getline stream = Some (line, s1)"
      by simp
    then have ne: "0 < length (rbuf stream)"
      by (auto simp: getline_def split: if_splits)
    have le: "length ?d \<le> length (rbuf stream)"
      by (rule length_dropWhile_le)
    from g have "length (rbuf s1) = 0 \<or> length (rbuf s1) = length ?d - 1"
      by (auto simp add: getline_def Let_def simp del: dropWhile_eq_Nil_conv split: if_splits)
    with ne le have "length (rbuf s1) < length (rbuf stream)"
      by arith
    then show ?thesis
      by simp
  qed
  done

declare extract_header_loop.simps [simp del]

definition extract_header :: "env \<Rightarrow> FILE \<Rightarrow> (http_error + http_header list) \<times> FILE" where
  "extract_header e stream =
     (if \<not> heap_ok e then (Inl Failure, stream) else extract_header_loop e stream [])"

text \<open>
  \<^verbatim>\<open>recv_req\<close> assigns the fields \<^verbatim>\<open>method\<close>, \<^verbatim>\<open>path\<close>, \<^verbatim>\<open>header\<close> and \<^verbatim>\<open>header_ln\<close> of the
  structure it is given and leaves \<^verbatim>\<open>body\<close> as it was.
\<close>

definition recv_req :: "env \<Rightarrow> FILE \<Rightarrow> http_req \<Rightarrow> (http_error + http_req) \<times> FILE" where
  "recv_req e stream req =
     (case getline stream of
        None \<Rightarrow> (Inl (if errno e = EOF then MalformedHead else Failure), stream)
      | Some (line, s1) \<Rightarrow>
          (case strtok_r (cstr line) '' '' of
             (None, saveptr) \<Rightarrow> (Inl MalformedHead, s1)
           | (Some token, saveptr) \<Rightarrow>
               (case find (\<lambda>m. token = HTTP_METHOD_STRINGS m) http_methods of
                  None \<Rightarrow> (Inl MalformedHead, s1)
                | Some m \<Rightarrow>
                    (case strtok_r saveptr '' '' of
                       (None, saveptr2) \<Rightarrow> (Inl MalformedHead, s1)
                     | (Some token2, saveptr2) \<Rightarrow>
                         if char_at token2 0 \<noteq> CHR ''/'' then (Inl MalformedHead, s1)
                         else if \<not> heap_ok e then (Inl Failure, s1)
                         else
                           (case strtok_r saveptr2 '' '' of
                              (None, saveptr3) \<Rightarrow> (Inl MalformedHead, s1)
                            | (Some token3, saveptr3) \<Rightarrow>
                                if token3 \<noteq> ''HTTP/1.1'' @ CRLF then (Inl MalformedHead, s1)
                                else
                                  (case extract_header e s1 of
                                     (Inl err, s2) \<Rightarrow> (Inl err, s2)
                                   | (Inr hs, s2) \<Rightarrow>
                                       (Inr (req\<lparr>method := m, path := token2, header := hs\<rparr>),
                                        s2)))))))"

text \<open>
  \<^verbatim>\<open>recv_res\<close>. When \<^verbatim>\<open>strdup("")\<close> fails the description is NULL, but then the first
  \<^verbatim>\<open>malloc\<close> of \<^verbatim>\<open>extract_header\<close> fails as well and no response is returned.
\<close>

definition recv_res :: "env \<Rightarrow> FILE \<Rightarrow> http_res \<Rightarrow> (http_error + http_res) \<times> FILE" where
  "recv_res e stream res =
     (case getline stream of
        None \<Rightarrow> (Inl (if errno e = EOF then MalformedHead else Failure), stream)
      | Some (line, s1) \<Rightarrow>
          (case strtok_r (cstr line) '' '' of
             (None, saveptr) \<Rightarrow> (Inl MalformedHead, s1)
           | (Some token, saveptr) \<Rightarrow>
               if token \<noteq> ''HTTP/1.1'' then (Inl MalformedHead, s1)
               else
                 (case strtok_r saveptr '' '' of
                    (None, saveptr2) \<Rightarrow> (Inl MalformedHead, s1)
                  | (Some token2, saveptr2) \<Rightarrow>
                      let (c, endptr) = strtol token2 in
                      if endptr \<noteq> [] then (Inl MalformedHead, s1)
                      else if saveptr2 \<noteq> [] \<and> \<not> heap_ok e then (Inl Failure, s1)
                      else
                        let d = (if saveptr2 \<noteq> [] then strndup saveptr2 (strcspn saveptr2 CRLF)
                                 else [])
                        in
                          (case extract_header e s1 of
                             (Inl err, s2) \<Rightarrow> (Inl err, s2)
                           | (Inr hs, s2) \<Rightarrow>
                               (Inr (res\<lparr>status_code := \<lparr>code = c, description = d\<rparr>,
                                         res_header := hs\<rparr>),
                                s2)))))"

text \<open>\<^verbatim>\<open>clear_http_head\<close>: read lines of at most 1023 bytes up to an empty one.\<close>

function clear_http_head :: "FILE \<Rightarrow> FILE" where
  "clear_http_head stream =
     (case fgets 1024 stream of
        None \<Rightarrow> stream
      | Some (buf, s1) \<Rightarrow> if cstr buf = CRLF then s1 else clear_http_head s1)"
  by pat_completeness auto
termination
proof (relation "measure (\<lambda>stream. length (rbuf stream))")
  show "wf (measure (\<lambda>stream. length (rbuf stream)))"
    by simp
next
  fix stream :: FILE and x2 :: "string \<times> FILE" and buf :: string and s1 :: FILE
  assume g: "fgets 1024 stream = Some x2" and x2: "(buf, s1) = x2"
  then have ne: "rbuf stream \<noteq> []"
    by (auto simp: fgets_def split: if_splits)
  then obtain c cs where cs: "rbuf stream = c # cs"
    by (cases "rbuf stream") auto
  from g x2 cs have "length (rbuf s1) < length (rbuf stream)"
    by (auto simp add: fgets_def Let_def split: if_splits)
  then show "(s1, stream) \<in> measure (\<lambda>stream. length (rbuf stream))"
    by simp
qed

declare clear_http_head.simps [simp del]

section \<open>Encoding: send_req, send_res\<close>

text \<open>
  A header line as the format of \<^verbatim>\<open>fprintf\<close> prints it (key, colon, space, value,
  CR LF), and the loop that prints the header lines, the same in both sending functions.
\<close>

definition header_line :: "http_header \<Rightarrow> string" where
  "header_line h = key h @ '': '' @ val h @ CRLF"

fun send_headers :: "FILE \<Rightarrow> http_header list \<Rightarrow> int \<times> FILE" where
  "send_headers stream [] = (0, stream)"
| "send_headers stream (h # hs) =
     (let (r, s1) = fprintf stream (header_line h)
      in if r < 0 then (- 1, s1) else send_headers s1 hs)"

text \<open>
  The body loop of \<^verbatim>\<open>send_req\<close>: \<^verbatim>\<open>fread(buffer, 1024, 1, body)\<close> and
  \<^verbatim>\<open>fwrite(buffer, read_ln, 1, stream)\<close>. The result 0 stands for leaving the loop by
  \<^verbatim>\<open>break\<close>, -1 for \<^verbatim>\<open>return -1\<close>.
\<close>

function send_req_body :: "FILE \<Rightarrow> FILE \<Rightarrow> int \<times> FILE" where
  "send_req_body b stream =
     (let (read_ln, buffer, b1) = fread b 1024 1 in
      if ferror b1 then (- 1, stream)
      else
        let (write_ln, s1) = fwrite buffer read_ln 1 stream in
        if write_ln < read_ln then (- 1, s1)
        else if read_ln < 1024 then (0, s1)
        else send_req_body b1 s1)"
  by pat_completeness auto
termination
  apply (relation "measure (\<lambda>(b, stream). length (rbuf b))")
   apply simp
  apply (auto simp add: fread_def Let_def split: if_splits)
  done

declare send_req_body.simps [simp del]

definition send_req :: "FILE \<Rightarrow> http_req \<Rightarrow> int \<times> FILE" where
  "send_req stream req =
     (let (r1, s1) = fprintf stream
            (HTTP_METHOD_STRINGS (method req) @ '' /'' @
             (if char_at (path req) 0 = CHR ''/'' then drop 1 (path req) else path req) @
             '' HTTP/1.1'' @ CRLF)
      in
        if r1 < 0 then (- 1, s1)
        else
          let (r2, s2) = send_headers s1 (header req) in
          if r2 < 0 then (- 1, s2)
          else
            let s3 = (case body req of
                        None \<Rightarrow> s2
                      | Some b \<Rightarrow>
                          snd (fprintf s2
                            (''Content-Length: '' @ show_long (int (length (rbuf b))) @ CRLF)));
                (r4, s4) = fprintf s3 (''Connection: close'' @ CRLF @ CRLF)
            in
              if r4 < 0 then (- 1, s4)
              else
                let (r5, s5) = (case body req of
                                  None \<Rightarrow> (0, s4)
                                | Some b \<Rightarrow> send_req_body b s4)
                in
                  if r5 < 0 then (- 1, s5)
                  else if fflush s5 = EOF then (- 1, s5)
                  else (0, s5))"

text \<open>
  The body loop of \<^verbatim>\<open>send_res\<close>: \<^verbatim>\<open>fread(buffer, 1, sizeof(buffer), body)\<close> and
  \<^verbatim>\<open>fwrite(buffer, 1, read_ln, stream)\<close>.
\<close>

function send_res_body :: "FILE \<Rightarrow> FILE \<Rightarrow> int \<times> FILE" where
  "send_res_body b stream =
     (let (read_ln, buffer, b1) = fread b 1 1024 in
      if ferror b1 then (- 1, stream)
      else
        let (write_ln, s1) = fwrite buffer 1 read_ln stream in
        if write_ln < read_ln then (- 1, s1)
        else if read_ln < 1024 then (0, s1)
        else send_res_body b1 s1)"
  by pat_completeness auto
termination
  apply (relation "measure (\<lambda>(b, stream). length (rbuf b))")
   apply simp
  apply (auto simp add: fread_def Let_def split: if_splits)
  done

declare send_res_body.simps [simp del]

text \<open>
  \<^verbatim>\<open>send_res\<close>. The argument \<open>date\<close> is the text \<^verbatim>\<open>strftime\<close> produces from the current
  time, \<open>None\<close> when \<^verbatim>\<open>gmtime\<close> returns NULL.
\<close>

definition send_res :: "string option \<Rightarrow> FILE \<Rightarrow> http_res \<Rightarrow> int \<times> FILE" where
  "send_res date stream res =
     (let (r1, s1) = fprintf stream
            (''HTTP/1.1 '' @ show_long (code (status_code res)) @ '' '' @
             description (status_code res) @ CRLF)
      in
        if r1 < 0 then (- 1, s1)
        else
          let (r2, s2) = send_headers s1 (res_header res) in
          if r2 < 0 then (- 1, s2)
          else
            (case date of
               None \<Rightarrow> (- 1, s2)
             | Some d \<Rightarrow>
                 let len = (case res_body res of
                              None \<Rightarrow> 0
                            | Some b \<Rightarrow> int (length (rbuf b)));
                     (r3, s3) = fprintf s2
                       (''Date: '' @ d @ CRLF @ ''Content-Length: '' @ show_long len @ CRLF @
                        ''Connection: close'' @ CRLF @ CRLF)
                 in
                   if r3 < 0 then (- 1, s3)
                   else
                     let (r4, s4) = (case res_body res of
                                       None \<Rightarrow> (0, s3)
                                     | Some b \<Rightarrow> send_res_body b s3)
                     in
                       if r4 < 0 then (- 1, s4)
                       else if fflush s4 = EOF then (- 1, s4)
                       else (0, s4)))"

section \<open>The server: one iteration of the accept loop\<close>

record args_t =
  port :: string
  doc_root :: string
  index :: string

text \<open>
  What the drivers write to standard error: a text printed with \<^verbatim>\<open>fprintf\<close>, or a call
  of \<^verbatim>\<open>perror\<close> with its prefix. How an iteration ends: with the next iteration
  (\<^verbatim>\<open>continue\<close> or the end of the loop body) or with \<^verbatim>\<open>return\<close> from \<^verbatim>\<open>main\<close>.
\<close>

datatype stderr_line = Message string | Perror string

datatype loop_ctl = Continue | Return int

definition ENOENT :: int where "ENOENT = 2"
definition EACCES :: int where "EACCES = 13"

definition strrchr :: "string \<Rightarrow> char \<Rightarrow> string option" where
  "strrchr s c =
     (if c \<in> set s then Some (c # rev (takeWhile (\<lambda>x. x \<noteq> c) (rev s))) else None)"

text \<open>
  The path of the file to open (the three branches that build \<^verbatim>\<open>path\<close> with
  \<^verbatim>\<open>sprintf\<close>) and the media type chosen from the text behind the last dot.
\<close>

definition resolve_path :: "args_t \<Rightarrow> http_req \<Rightarrow> string" where
  "resolve_path args req =
     (if strlen (path req) = 0 then doc_root args @ ''/'' @ index args
      else if char_at (path req) (strlen (path req) - 1) = CHR ''/''
      then doc_root args @ path req @ index args
      else doc_root args @ path req)"

definition mime_type :: "string \<Rightarrow> string option" where
  "mime_type p =
     (case strrchr p CHR ''.'' of
        None \<Rightarrow> None
      | Some extension \<Rightarrow>
          if extension = ''.html'' \<or> extension = ''.htm'' then Some ''text/html''
          else if extension = ''.css'' then Some ''text/css''
          else if extension = ''.js'' then Some ''application/javascript''
          else None)"

text \<open>A response with a status, no headers and no body, and the response for a file.\<close>

definition status_res :: "int \<Rightarrow> string \<Rightarrow> http_res" where
  "status_res c d =
     \<lparr>status_code = \<lparr>code = c, description = d\<rparr>, res_header = [], res_body = None\<rparr>"

definition file_res :: "string option \<Rightarrow> FILE \<Rightarrow> http_res" where
  "file_res mime b =
     (case mime of
        Some m \<Rightarrow>
          \<lparr>status_code = \<lparr>code = 200, description = ''OK''\<rparr>,
           res_header = [\<lparr>key = ''Content-Type'', val = m\<rparr>], res_body = Some b\<rparr>
      | None \<Rightarrow>
          \<lparr>status_code = \<lparr>code = 200, description = ''OK''\<rparr>,
           res_header = [], res_body = Some b\<rparr>)"

text \<open>
  The body of the \<^verbatim>\<open>while\<close> loop of the server's \<^verbatim>\<open>main\<close> from the call of \<^verbatim>\<open>recv_req\<close>
  on, for an accepted connection. \<open>fopen_r\<close> is \<^verbatim>\<open>fopen(path, "r")\<close>: the value of
  \<^verbatim>\<open>errno\<close> when it fails, the opened file otherwise. The result is what was written to
  standard error, the connection when it is closed, and how the iteration ends.
\<close>

definition serve_connection ::
  "args_t \<Rightarrow> env \<Rightarrow> (string \<Rightarrow> int + FILE) \<Rightarrow> string option \<Rightarrow> FILE \<Rightarrow> http_req
   \<Rightarrow> stderr_line list \<times> FILE \<times> loop_ctl" where
  "serve_connection args e fopen_r date connection req0 =
     (case recv_req e connection req0 of
        (Inl err, c1) \<Rightarrow>
          if err_code err = - 2 \<or> err_code err = - 3 then
            let c2 = clear_http_head c1;
                (r, c3) = send_res date c2 (status_res 400 ''Bad Request'')
            in
              if r = - 1 then
                ([Message (''Received malformed packet'' @ [LF]),
                  Perror ''Failed to send response''], fclose c3, Continue)
              else ([Message (''Received malformed packet'' @ [LF])], fclose c3, Continue)
          else ([Perror ''Error while reading request''], fclose c1, Continue)
      | (Inr req, c1) \<Rightarrow>
          let (r501, c2) =
                (if method req \<noteq> HTTP_GET
                 then send_res date c1 (status_res 501 ''Not implemented'')
                 else (0, c1))
          in
            if r501 = - 1 then ([Perror ''Failed to send response''], fclose c2, Continue)
            else if \<not> heap_ok e then
              ([Perror ''Failed to allocate memory''], fclose c2, Return (- 1))
            else
              let p = resolve_path args req
              in
                (case fopen_r p of
                   Inl en \<Rightarrow>
                     if en = ENOENT then
                       let (r, c3) = send_res date c2 (status_res 404 ''Not Found'') in
                       (if r = - 1 then [Perror ''Failed to send response''] else [],
                        fclose c3, Continue)
                     else if en = EACCES then
                       let (r, c3) = send_res date c2 (status_res 403 ''Forbidden'') in
                       (if r = - 1 then [Perror ''Failed to send response''] else [],
                        fclose c3, Continue)
                     else
                       let (r, c3) =
                             send_res date c2 (status_res 500 ''Internal Server Error'')
                       in
                         (Perror ''Failed to access file'' #
                            (if r = - 1 then [Perror ''Failed to send response''] else []),
                          fclose c3, Continue)
                 | Inr b \<Rightarrow>
                     let (r, c3) = send_res date c2 (file_res (mime_type p) b)
                     in
                       (if r = - 1 then [Perror ''Failed to send response''] else [],
                        fclose c3, Continue)))"

section \<open>The client: the exchange on an open connection\<close>

definition EXIT_FAILURE :: int where "EXIT_FAILURE = 1"

text \<open>
  The copy loop of the client: from the connection to the sink in pieces of 1024
  bytes. \<open>Some l\<close> is \<^verbatim>\<open>return EXIT_FAILURE\<close> after \<^verbatim>\<open>perror\<close>, \<open>None\<close> the \<^verbatim>\<open>break\<close>.
\<close>

function client_copy :: "FILE \<Rightarrow> FILE \<Rightarrow> stderr_line option \<times> FILE \<times> FILE" where
  "client_copy stream sink =
     (let (read_ln, buffer, s1) = fread stream 1 1024 in
      if ferror s1 then (Some (Perror ''Error while reading stream''), s1, sink)
      else
        let (write_ln, k1) = fwrite buffer 1 read_ln sink in
        if write_ln < read_ln then (Some (Perror ''Error while writing stream''), s1, k1)
        else if read_ln < 1024 then (None, s1, k1)
        else client_copy s1 k1)"
  by pat_completeness auto
termination
  apply (relation "measure (\<lambda>(stream, sink). length (rbuf stream))")
   apply simp
  apply (auto simp add: fread_def Let_def split: if_splits)
  done

declare client_copy.simps [simp del]

record client_result =
  exit_code :: int
  stderr :: "stderr_line list"
  conn :: FILE
  out_stream :: "FILE option"
  std_out :: FILE

text \<open>
  The client's \<^verbatim>\<open>main\<close> from the construction of the request on: \<open>host\<close> and \<open>upath\<close>
  are the parts of the URL, \<open>stream\<close> the connection, \<open>outStream\<close> the file opened for
  \<^verbatim>\<open>-o\<close> or \<^verbatim>\<open>-d\<close> (NULL without them), \<open>res0\<close> the uninitialised response structure.
\<close>

definition client_exchange ::
  "env \<Rightarrow> string \<Rightarrow> string \<Rightarrow> FILE \<Rightarrow> FILE option \<Rightarrow> FILE \<Rightarrow> http_res \<Rightarrow> client_result" where
  "client_exchange e host upath stream outStream stdout res0 =
     (let req = \<lparr>method = HTTP_GET, path = upath,
                 header = [\<lparr>key = ''Host'', val = host\<rparr>], body = None\<rparr>;
          (r, s1) = send_req stream req
      in
        if r = - 1 then
          \<lparr>exit_code = EXIT_FAILURE, stderr = [Perror ''Failed to send request''],
           conn = fclose s1, out_stream = map_option fclose outStream, std_out = stdout\<rparr>
        else
          (case recv_res e s1 res0 of
             (Inl err, s2) \<Rightarrow>
               if err_code err = - 2 \<or> err_code err = - 3 then
                 \<lparr>exit_code = 2, stderr = [Message (''Protocol error!'' @ [LF])],
                  conn = fclose s2, out_stream = map_option fclose outStream, std_out = stdout\<rparr>
               else
                 \<lparr>exit_code = EXIT_FAILURE, stderr = [Perror ''Error while receiving response''],
                  conn = fclose s2, out_stream = map_option fclose outStream, std_out = stdout\<rparr>
           | (Inr res, s2) \<Rightarrow>
               if code (status_code res) \<noteq> 200 then
                 \<lparr>exit_code = 3,
                  stderr = [Message (show_long (code (status_code res)) @ '' '' @
                                     description (status_code res) @ [LF])],
                  conn = fclose s2, out_stream = map_option fclose outStream, std_out = stdout\<rparr>
               else
                 (case outStream of
                    None \<Rightarrow>
                      (case client_copy s2 stdout of
                         (Some l, s3, k) \<Rightarrow>
                           \<lparr>exit_code = EXIT_FAILURE, stderr = [l], conn = s3,
                            out_stream = None, std_out = k\<rparr>
                       | (None, s3, k) \<Rightarrow>
                           \<lparr>exit_code = 0, stderr = [], conn = fclose s3,
                            out_stream = None, std_out = k\<rparr>)
                  | Some out \<Rightarrow>
                      (case client_copy s2 out of
                         (Some l, s3, k) \<Rightarrow>
                           \<lparr>exit_code = EXIT_FAILURE, stderr = [l], conn = s3,
                            out_stream = Some k, std_out = stdout\<rparr>
                       | (None, s3, k) \<Rightarrow>
                           \<lparr>exit_code = 0, stderr = [], conn = fclose s3,
                            out_stream = Some (fclose k), std_out = stdout\<rparr>))))"

section \<open>Properties of the library functions\<close>

lemma cstr_id: "NUL \<notin> set s \<Longrightarrow> cstr s = s"
  by (auto simp add: cstr_def)

lemma getline_LF:
  assumes "rbuf f = l @ LF # rest" and "LF \<notin> set l"
  shows "getline f = Some (l @ [LF], f\<lparr>rbuf := rest\<rparr>)"
proof -
  from assms have t: "takeWhile (\<lambda>c. c \<noteq> LF) (rbuf f) = l"
    by (auto simp add: takeWhile_tail)
  from assms have d: "dropWhile (\<lambda>c. c \<noteq> LF) (rbuf f) = LF # rest"
    by (auto simp add: dropWhile_append3)
  from assms(1) have "rbuf f \<noteq> []" by simp
  with t d show ?thesis
    by (simp add: getline_def Let_def del: dropWhile_eq_Nil_conv takeWhile_eq_all_conv)
qed

lemma strspn_replicate:
  assumes "t = [] \<or> hd t \<noteq> c"
  shows "strspn (replicate a c @ t) [c] = a"
proof -
  have "takeWhile (\<lambda>x. x \<in> set [c]) (replicate a c @ t) = replicate a c"
    using assms by (cases t) (auto simp: takeWhile_tail)
  then show ?thesis by (simp add: strspn_def)
qed

lemma strcspn_stop:
  assumes "\<forall>x\<in>set t. x \<notin> set r" and "u = [] \<or> hd u \<in> set r"
  shows "strcspn (t @ u) r = length t"
proof -
  have "takeWhile (\<lambda>x. x \<notin> set r) (t @ u) = t"
    using assms by (cases u) (auto simp: takeWhile_tail)
  then show ?thesis by (simp add: strcspn_def)
qed





section \<open>Properties of the sending functions\<close>

lemma send_headers_ok:
  "\<not> wfail f \<Longrightarrow>
   send_headers f hs = (0, f\<lparr>wbuf := wbuf f @ concat (map header_line hs)\<rparr>)"
  by (induction hs arbitrary: f) (simp_all add: fprintf_def)

lemma send_req_no_body:
  assumes "\<not> wfail f" and "body req = None"
  shows "send_req f req =
    (0, f\<lparr>wbuf := wbuf f @ HTTP_METHOD_STRINGS (method req) @ '' /'' @
           (if char_at (path req) 0 = CHR ''/'' then drop 1 (path req) else path req) @
           '' HTTP/1.1'' @ CRLF @ concat (map header_line (header req)) @
           ''Connection: close'' @ CRLF @ CRLF\<rparr>)"
  using assms
  by (simp add: send_req_def fprintf_def send_headers_ok fflush_def EOF_def)

lemma send_req_body_once:
  "send_req_body b stream =
     (if ferr b then (- 1, stream)
      else if 1024 \<le> length (rbuf b) then
        (if wfail stream then (- 1, stream) else (0, stream\<lparr>wbuf := wbuf stream @ take 1 (rbuf b)\<rparr>))
      else (0, stream))"
  by (subst send_req_body.simps) (auto simp add: fread_def fwrite_def ferror_def Let_def min_def)

lemma send_req_wbuf:
  assumes "\<not> wfail f"
  shows "wbuf (snd (send_req f req)) =
    wbuf f @ HTTP_METHOD_STRINGS (method req) @ '' /'' @
      (if char_at (path req) 0 = CHR ''/'' then drop 1 (path req) else path req) @
      '' HTTP/1.1'' @ CRLF @ concat (map header_line (header req)) @
      (case body req of
         None \<Rightarrow> []
       | Some b \<Rightarrow> ''Content-Length: '' @ show_long (int (length (rbuf b))) @ CRLF) @
      ''Connection: close'' @ CRLF @ CRLF @
      (case body req of
         None \<Rightarrow> []
       | Some b \<Rightarrow> if \<not> ferr b \<and> 1024 \<le> length (rbuf b) then take 1 (rbuf b) else [])"
proof (cases "body req")
  case None
  with assms show ?thesis
    by (simp add: send_req_no_body)
next
  case (Some b)
  with assms show ?thesis
    by (simp add: send_req_def fprintf_def send_headers_ok send_req_body_once fflush_def EOF_def)
qed


section \<open>The request line of send_req\<close>

text \<open>
  Claim C4 as stated fails: the path \<open>//a/b\<close> is sent with two slashes, while \<open>/a/b\<close>
  and \<open>a/b\<close> are both sent as \<open>/a/b\<close>.
\<close>

theorem send_req_double_slash_counterexample:
  "wbuf (snd (send_req \<lparr>rbuf = [], wbuf = [], wfail = False, ferr = False, closed = False\<rparr>
      \<lparr>method = HTTP_GET, path = ''//a/b'', header = [], body = None\<rparr>))
     = ''GET //a/b HTTP/1.1'' @ CRLF @ ''Connection: close'' @ CRLF @ CRLF
   \<and> wbuf (snd (send_req \<lparr>rbuf = [], wbuf = [], wfail = False, ferr = False, closed = False\<rparr>
      \<lparr>method = HTTP_GET, path = ''/a/b'', header = [], body = None\<rparr>))
     = ''GET /a/b HTTP/1.1'' @ CRLF @ ''Connection: close'' @ CRLF @ CRLF
   \<and> wbuf (snd (send_req \<lparr>rbuf = [], wbuf = [], wfail = False, ferr = False, closed = False\<rparr>
      \<lparr>method = HTTP_GET, path = ''a/b'', header = [], body = None\<rparr>))
     = ''GET /a/b HTTP/1.1'' @ CRLF @ ''Connection: close'' @ CRLF @ CRLF"
  by code_simp

text \<open>
  Claim C4, amended: \<^verbatim>\<open>send_req\<close> removes at most one leading slash from the path and
  prints one slash in front of what is left. For a path that consists of \<open>n\<close> slashes
  followed by a text \<open>q\<close> that does not start with a slash, the request line is the
  method, a space, \<open>max 1 n\<close> slashes, \<open>q\<close>, and \<open> HTTP/1.1\<close> with CR LF: exactly one
  slash when the caller gave none or one, and \<open>n\<close> slashes when the caller gave more.
\<close>

theorem send_req_strips_one_slash:
  assumes "\<not> wfail f" and "q = [] \<or> hd q \<noteq> CHR ''/''"
  shows "\<exists>rest. wbuf (snd (send_req f (req\<lparr>path := replicate n CHR ''/'' @ q\<rparr>))) =
           wbuf f @ HTTP_METHOD_STRINGS (method req) @ '' '' @
           replicate (max 1 n) CHR ''/'' @ q @ '' HTTP/1.1'' @ CRLF @ rest"
proof -
  define x where "x = (if char_at (replicate n CHR ''/'' @ q) 0 = CHR ''/''
              then drop 1 (replicate n CHR ''/'' @ q) else replicate n CHR ''/'' @ q)"
  have p: "CHR ''/'' # x = replicate (max 1 n) CHR ''/'' @ q"
  proof (cases n)
    case 0
    with assms(2) show ?thesis
      by (cases q) (auto simp: char_at_def x_def)
  next
    case (Suc k)
    then show ?thesis
      by (simp add: char_at_def max_def x_def)
  qed
  have "\<exists>rest. wbuf (snd (send_req f (req\<lparr>path := replicate n CHR ''/'' @ q\<rparr>))) =
           wbuf f @ HTTP_METHOD_STRINGS (method req) @ '' '' @
           (CHR ''/'' # x) @ '' HTTP/1.1'' @ CRLF @ rest"
    unfolding send_req_wbuf [OF assms(1)] x_def by simp
  then show ?thesis
    unfolding p by (simp only: append_assoc)
qed

text \<open>Claim C4, amended, at the path \<open>//a/b\<close> (\<open>n = 2\<close>, \<open>q = a/b\<close>).\<close>

theorem send_req_strips_one_slash_witness:
  "\<not> wfail \<lparr>rbuf = [], wbuf = [], wfail = False, ferr = False, closed = False\<rparr>
   \<and> (''a/b'' = [] \<or> hd ''a/b'' \<noteq> CHR ''/'')
   \<and> (\<exists>rest. wbuf (snd (send_req \<lparr>rbuf = [], wbuf = [], wfail = False, ferr = False, closed = False\<rparr>
          (\<lparr>method = HTTP_GET, path = [], header = [], body = None\<rparr>
             \<lparr>path := replicate 2 CHR ''/'' @ ''a/b''\<rparr>))) =
        wbuf \<lparr>rbuf = [], wbuf = [], wfail = False, ferr = False, closed = False\<rparr> @ ''GET'' @ '' '' @ replicate (max 1 2) CHR ''/'' @ ''a/b'' @
        '' HTTP/1.1'' @ CRLF @ rest)"
  using send_req_strips_one_slash [where
      f = "\<lparr>rbuf = [], wbuf = [], wfail = False, ferr = False, closed = False\<rparr>"
      and q = "''a/b''" and n = 2
      and req = "\<lparr>method = HTTP_GET, path = [], header = [], body = None\<rparr>"]
  by simp

section \<open>The body of a request\<close>

text \<open>
  Claim C2 says that \<^verbatim>\<open>send_req\<close> copies all remaining bytes of the body behind the
  blank line. The loop of \<^verbatim>\<open>send_req\<close> passes the item size 1024 and the count 1 to
  \<^verbatim>\<open>fread\<close>, so \<^verbatim>\<open>read_ln\<close> is 0 or 1, and then writes one item of \<^verbatim>\<open>read_ln\<close> bytes: for
  the body \<open>hello\<close> it announces \<open>Content-Length: 5\<close> and writes no byte of the body.
\<close>

theorem send_req_body_not_copied:
  "send_req \<lparr>rbuf = [], wbuf = [], wfail = False, ferr = False, closed = False\<rparr>
     \<lparr>method = HTTP_POST, path = ''/up'', header = [],
      body = Some \<lparr>rbuf = ''hello'', wbuf = [], wfail = False, ferr = False, closed = False\<rparr>\<rparr>
   = (0, \<lparr>rbuf = [],
          wbuf = ''POST /up HTTP/1.1'' @ CRLF @ ''Content-Length: 5'' @ CRLF @
                 ''Connection: close'' @ CRLF @ CRLF,
          wfail = False, ferr = False, closed = False\<rparr>)"
  by code_simp

section \<open>The status line of a response\<close>

text \<open>
  Claim C5 says that \<^verbatim>\<open>recv_res\<close> accepts the status line \<open>HTTP/1.1 200\<close> followed by
  CR LF, with the empty description. The second token then is \<open>200\<close> with CR LF, the end
  pointer of \<^verbatim>\<open>strtol\<close> stands on CR, and \<^verbatim>\<open>recv_res\<close> returns -2. The empty description is
  accepted when a space follows the code, and bytes behind the number inside the token
  are rejected, as the claim says.
\<close>

theorem recv_res_no_description_rejected:
  "fst (recv_res \<lparr>errno = 0, heap_ok = True\<rparr>
      \<lparr>rbuf = ''HTTP/1.1 200'' @ CRLF @ CRLF, wbuf = [], wfail = False, ferr = False,
       closed = False\<rparr>
      \<lparr>status_code = \<lparr>code = 0, description = []\<rparr>, res_header = [], res_body = None\<rparr>)
   = Inl MalformedHead
   \<and> fst (recv_res \<lparr>errno = 0, heap_ok = True\<rparr>
      \<lparr>rbuf = ''HTTP/1.1 200 '' @ CRLF @ CRLF, wbuf = [], wfail = False, ferr = False,
       closed = False\<rparr>
      \<lparr>status_code = \<lparr>code = 0, description = []\<rparr>, res_header = [], res_body = None\<rparr>)
   = Inr \<lparr>status_code = \<lparr>code = 200, description = []\<rparr>, res_header = [], res_body = None\<rparr>
   \<and> fst (recv_res \<lparr>errno = 0, heap_ok = True\<rparr>
      \<lparr>rbuf = ''HTTP/1.1 200x OK'' @ CRLF @ CRLF, wbuf = [], wfail = False, ferr = False,
       closed = False\<rparr>
      \<lparr>status_code = \<lparr>code = 0, description = []\<rparr>, res_header = [], res_body = None\<rparr>)
   = Inl MalformedHead"
  by code_simp

section \<open>The end of the input inside the header block\<close>

text \<open>
  Claim C7 says that the end of the input inside the header block is reported as a
  malformed message. \<^verbatim>\<open>extract_header\<close> reports -3 only when \<^verbatim>\<open>errno\<close> equals \<^verbatim>\<open>EOF\<close>,
  which \<^verbatim>\<open>getline\<close> never assigns: with \<^verbatim>\<open>errno\<close> 0 the result is -1, and it would be -3
  with \<^verbatim>\<open>errno\<close> -1.
\<close>

theorem recv_req_truncated_headers_failure:
  "fst (recv_req \<lparr>errno = 0, heap_ok = True\<rparr>
      \<lparr>rbuf = ''GET / HTTP/1.1'' @ CRLF @ ''Host: a'' @ CRLF, wbuf = [], wfail = False, ferr = False,
       closed = False\<rparr>
      \<lparr>method = HTTP_GET, path = [], header = [], body = None\<rparr>)
   = Inl Failure
   \<and> fst (recv_req \<lparr>errno = - 1, heap_ok = True\<rparr>
      \<lparr>rbuf = ''GET / HTTP/1.1'' @ CRLF @ ''Host: a'' @ CRLF, wbuf = [], wfail = False, ferr = False,
       closed = False\<rparr>
      \<lparr>method = HTTP_GET, path = [], header = [], body = None\<rparr>)
   = Inl MalformedHeaders"
  by code_simp

section \<open>Properties of the header loop\<close>

lemma extract_header_loop_blank:
  assumes "rbuf stream = CRLF @ rest"
  shows "extract_header_loop e stream hs = (Inr hs, stream\<lparr>rbuf := rest\<rparr>)"
proof -
  from assms have "rbuf stream = [CR] @ LF # rest" by simp
  then have g: "getline stream = Some ([CR] @ [LF], stream\<lparr>rbuf := rest\<rparr>)"
    by (rule getline_LF) simp
  show ?thesis
    by (subst extract_header_loop.simps) (simp add: g cstr_def)
qed

lemma extract_header_loop_line:
  assumes r: "rbuf stream = k @ CHR '':'' # replicate n CHR '' '' @ v @ CRLF @ rest"
    and k: "CHR '':'' \<notin> set k" "LF \<notin> set k" "NUL \<notin> set k"
    and v: "CR \<notin> set v" "LF \<notin> set v" "NUL \<notin> set v" "v = [] \<or> hd v \<noteq> CHR '' ''"
    and h: "heap_ok e"
  shows "extract_header_loop e stream hs =
         extract_header_loop e (stream\<lparr>rbuf := rest\<rparr>) (hs @ [\<lparr>key = k, val = v\<rparr>])"
proof -
  let ?l = "k @ CHR '':'' # replicate n CHR '' '' @ v @ [CR]"
  define buf where "buf = k @ CHR '':'' # replicate n CHR '' '' @ v @ CRLF"
  from r have "rbuf stream = ?l @ LF # rest" by simp
  moreover from k v have "LF \<notin> set ?l" by auto
  ultimately have g: "getline stream = Some (?l @ [LF], stream\<lparr>rbuf := rest\<rparr>)"
    by (rule getline_LF)
  from k v have "NUL \<notin> set buf" by (auto simp: buf_def)
  then have "cstr buf = buf" by (rule cstr_id)
  then have c: "cstr (k @ CHR '':'' # replicate n CHR '' '' @ v @ CRLF) = buf"
    by (simp add: buf_def)
  have ne: "buf \<noteq> CRLF"
    by (cases k) (auto simp: buf_def)
  have d: "strcspn buf '':'' = length k"
    unfolding buf_def using k by (intro strcspn_stop) auto
  have ca: "char_at buf (length k) = CHR '':''"
    by (simp add: char_at_def nth_append buf_def)
  have tk: "take (length k) buf = k"
    by (simp add: buf_def)
  have dr: "drop (Suc (length k)) buf = replicate n CHR '' '' @ v @ CRLF"
    by (simp add: buf_def)
  from v(4) have "v @ CRLF = [] \<or> hd (v @ CRLF) \<noteq> CHR '' ''"
    by (cases v) auto
  then have sp: "strspn (replicate n CHR '' '' @ v @ CRLF) '' '' = n"
    by (rule strspn_replicate)
  have v0: "drop (Suc (length k + n)) buf = v @ CRLF"
    by (simp add: buf_def)
  have vl: "strcspn (v @ CRLF) CRLF = length v"
    using v by (intro strcspn_stop) auto
  show ?thesis
    by (subst extract_header_loop.simps) (simp add: g c ne d ca tk dr sp v0 vl h strndup_def Let_def)
qed

lemma extract_header_loop_no_colon:
  assumes g: "getline stream = Some (line, s1)"
    and "cstr line \<noteq> CRLF" and "CHR '':'' \<notin> set (cstr line)"
    and h: "heap_ok e"
  shows "extract_header_loop e stream hs = (Inl MalformedHeaders, s1)"
proof -
  from assms(3) have "takeWhile (\<lambda>c. c \<notin> set '':'') (cstr line) = cstr line"
    by auto
  then have d: "strcspn (cstr line) '':'' = length (cstr line)"
    unfolding strcspn_def by (rule arg_cong)
  show ?thesis
    using assms(2) h
    by (subst extract_header_loop.simps) (simp add: g d char_at_def)
qed


lemma getline_split:
  assumes "getline f = Some (line, s1)"
  shows "rbuf f = line @ rbuf s1 \<and> s1 = f\<lparr>rbuf := rbuf s1\<rparr> \<and> line \<noteq> []
         \<and> LF \<notin> set (butlast line)"
proof (cases "dropWhile (\<lambda>c. c \<noteq> LF) (rbuf f)")
  case Nil
  then have a: "takeWhile (\<lambda>c. c \<noteq> LF) (rbuf f) = rbuf f"
    by (metis append_Nil2 takeWhile_dropWhile_id)
  from Nil have "LF \<notin> set (rbuf f)"
    by auto
  then have "LF \<notin> set (butlast (rbuf f))"
    by (auto dest: in_set_butlastD)
  with assms Nil a show ?thesis
    by (auto simp add: getline_def Let_def simp del: dropWhile_eq_Nil_conv takeWhile_eq_all_conv
        split: if_splits)
next
  case (Cons c r)
  then have c: "c = LF"
    using hd_dropWhile [of "\<lambda>c. c \<noteq> LF" "rbuf f"] by auto
  have "rbuf f = takeWhile (\<lambda>c. c \<noteq> LF) (rbuf f) @ dropWhile (\<lambda>c. c \<noteq> LF) (rbuf f)"
    by simp
  with Cons c have sp: "rbuf f = takeWhile (\<lambda>c. c \<noteq> LF) (rbuf f) @ LF # r"
    by simp
  have "LF \<notin> set (takeWhile (\<lambda>c. c \<noteq> LF) (rbuf f))"
    by (auto dest: set_takeWhileD)
  with assms Cons c sp show ?thesis
    by (auto simp add: getline_def Let_def simp del: dropWhile_eq_Nil_conv takeWhile_eq_all_conv
        split: if_splits)
qed

section \<open>One line of the header block\<close>

text \<open>
  Claim C6: for a line read by \<^verbatim>\<open>getline\<close> in the loop of \<^verbatim>\<open>extract_header\<close>, with
  the headers \<open>hs\<close> collected so far: a line that is exactly CR LF ends the loop with
  \<open>hs\<close>; any other line without a colon gives the malformed-headers error -3; a line
  made of a key \<open>k\<close> without colon, a colon, \<open>n\<close> spaces, a value \<open>v\<close> that does not
  start with a space, and CR LF adds the header with key \<open>k\<close> (not trimmed) and value
  \<open>v\<close>, and the loop goes on with the next line. Key and value are texts of the data
  model: no NUL, and no CR or LF inside the value.
\<close>

theorem extract_header_line_cases:
  assumes g: "getline stream = Some (line, s1)" and h: "heap_ok e"
  shows "(line = CRLF \<longrightarrow> extract_header_loop e stream hs = (Inr hs, s1))
    \<and> (line \<noteq> CRLF \<and> CHR '':'' \<notin> set line \<longrightarrow>
         extract_header_loop e stream hs = (Inl MalformedHeaders, s1))
    \<and> (line = k @ CHR '':'' # replicate n CHR '' '' @ v @ CRLF
         \<and> CHR '':'' \<notin> set k \<and> NUL \<notin> set k \<and> (v = [] \<or> hd v \<noteq> CHR '' '')
         \<and> CR \<notin> set v \<and> LF \<notin> set v \<and> NUL \<notin> set v \<longrightarrow>
         extract_header_loop e stream hs =
         extract_header_loop e s1 (hs @ [\<lparr>key = k, val = v\<rparr>]))"
proof (intro conjI impI)
  note sp = getline_split [OF g]
  from sp have s1: "stream\<lparr>rbuf := rbuf s1\<rparr> = s1"
    by simp
  {
    assume "line = CRLF"
    with sp have "rbuf stream = CRLF @ rbuf s1"
      by simp
    from extract_header_loop_blank [OF this] s1
    show "extract_header_loop e stream hs = (Inr hs, s1)"
      by simp
  next
    assume a: "line \<noteq> CRLF \<and> CHR '':'' \<notin> set line"
    have "cstr line \<noteq> CRLF"
    proof
      assume c: "cstr line = CRLF"
      then have "takeWhile (\<lambda>c. c \<noteq> NUL) line = CRLF"
        by (simp add: cstr_def)
      then obtain r where r: "line = CR # LF # r"
        by (cases line; cases "tl line") (auto split: if_splits)
      with a have "r \<noteq> []"
        by auto
      with r have "LF \<in> set (butlast line)"
        by simp
      with sp show False
        by simp
    qed
    moreover from a have "CHR '':'' \<notin> set (cstr line)"
      by (auto simp: cstr_def dest: set_takeWhileD)
    ultimately show "extract_header_loop e stream hs = (Inl MalformedHeaders, s1)"
      using g h by (intro extract_header_loop_no_colon)
  next
    assume a: "line = k @ CHR '':'' # replicate n CHR '' '' @ v @ CRLF
         \<and> CHR '':'' \<notin> set k \<and> NUL \<notin> set k \<and> (v = [] \<or> hd v \<noteq> CHR '' '')
         \<and> CR \<notin> set v \<and> LF \<notin> set v \<and> NUL \<notin> set v"
    then have "butlast line = k @ CHR '':'' # replicate n CHR '' '' @ v @ [CR]"
      by (simp add: butlast_append)
    with sp have "LF \<notin> set k"
      by auto
    moreover from a sp
    have "rbuf stream = k @ CHR '':'' # replicate n CHR '' '' @ v @ CRLF @ rbuf s1"
      by simp
    ultimately have "extract_header_loop e stream hs =
         extract_header_loop e (stream\<lparr>rbuf := rbuf s1\<rparr>) (hs @ [\<lparr>key = k, val = v\<rparr>])"
      using a h by (intro extract_header_loop_line) auto
    with s1 show "extract_header_loop e stream hs =
         extract_header_loop e s1 (hs @ [\<lparr>key = k, val = v\<rparr>])"
      by simp
  }
qed


text \<open>
  Claim C6 on the input \<open>X-Test:   value\<close>, CR LF, CR LF, which yields the one header
  with key \<open>X-Test\<close> and value \<open>value\<close>, and on the line \<open>garbage\<close>, which is
  malformed.
\<close>

theorem extract_header_line_cases_witness:
  "getline \<lparr>rbuf = ''X-Test:   value'' @ CRLF @ CRLF, wbuf = [], wfail = False, ferr = False, closed = False\<rparr> = Some (''X-Test:   value'' @ CRLF, \<lparr>rbuf = CRLF, wbuf = [], wfail = False, ferr = False, closed = False\<rparr>)
   \<and> heap_ok \<lparr>errno = 0, heap_ok = True\<rparr>
   \<and> extract_header_loop \<lparr>errno = 0, heap_ok = True\<rparr> \<lparr>rbuf = ''X-Test:   value'' @ CRLF @ CRLF, wbuf = [], wfail = False, ferr = False, closed = False\<rparr> [] = (Inr [\<lparr>key = ''X-Test'', val = ''value''\<rparr>], \<lparr>rbuf = [], wbuf = [], wfail = False, ferr = False, closed = False\<rparr>)
   \<and> extract_header_loop \<lparr>errno = 0, heap_ok = True\<rparr> \<lparr>rbuf = ''garbage'' @ CRLF, wbuf = [], wfail = False, ferr = False, closed = False\<rparr> [] = (Inl MalformedHeaders, \<lparr>rbuf = [], wbuf = [], wfail = False, ferr = False, closed = False\<rparr>)"
proof -
  have g: "getline \<lparr>rbuf = ''X-Test:   value'' @ CRLF @ CRLF, wbuf = [], wfail = False, ferr = False, closed = False\<rparr> = Some (''X-Test:   value'' @ CRLF, \<lparr>rbuf = CRLF, wbuf = [], wfail = False, ferr = False, closed = False\<rparr>)"
    by code_simp
  have g1: "getline \<lparr>rbuf = CRLF, wbuf = [], wfail = False, ferr = False, closed = False\<rparr> = Some (CRLF, \<lparr>rbuf = [], wbuf = [], wfail = False, ferr = False, closed = False\<rparr>)"
    by code_simp
  have g2: "getline \<lparr>rbuf = ''garbage'' @ CRLF, wbuf = [], wfail = False, ferr = False, closed = False\<rparr> = Some (''garbage'' @ CRLF, \<lparr>rbuf = [], wbuf = [], wfail = False, ferr = False, closed = False\<rparr>)"
    by code_simp
  have h: "heap_ok \<lparr>errno = 0, heap_ok = True\<rparr>"
    by simp
  from extract_header_line_cases [OF g h, where k = "''X-Test''" and n = 3 and v = "''value''"
      and hs = "[]"]
  have a: "extract_header_loop \<lparr>errno = 0, heap_ok = True\<rparr> \<lparr>rbuf = ''X-Test:   value'' @ CRLF @ CRLF, wbuf = [], wfail = False, ferr = False, closed = False\<rparr> [] = extract_header_loop \<lparr>errno = 0, heap_ok = True\<rparr> \<lparr>rbuf = CRLF, wbuf = [], wfail = False, ferr = False, closed = False\<rparr> [\<lparr>key = ''X-Test'', val = ''value''\<rparr>]"
    by (simp add: numeral_3_eq_3)
  from extract_header_line_cases [OF g1 h, where hs = "[\<lparr>key = ''X-Test'', val = ''value''\<rparr>]"]
  have b: "extract_header_loop \<lparr>errno = 0, heap_ok = True\<rparr> \<lparr>rbuf = CRLF, wbuf = [], wfail = False, ferr = False, closed = False\<rparr> [\<lparr>key = ''X-Test'', val = ''value''\<rparr>] = (Inr [\<lparr>key = ''X-Test'', val = ''value''\<rparr>], \<lparr>rbuf = [], wbuf = [], wfail = False, ferr = False, closed = False\<rparr>)"
    by simp
  from extract_header_line_cases [OF g2 h, where hs = "[]"]
  have c: "extract_header_loop \<lparr>errno = 0, heap_ok = True\<rparr> \<lparr>rbuf = ''garbage'' @ CRLF, wbuf = [], wfail = False, ferr = False, closed = False\<rparr> [] = (Inl MalformedHeaders, \<lparr>rbuf = [], wbuf = [], wfail = False, ferr = False, closed = False\<rparr>)"
    by simp
  from g h a b c show ?thesis
    by simp
qed

section \<open>The request line of recv_req\<close>





section \<open>Sending a request and receiving it again\<close>






section \<open>Properties of send_res\<close>

lemma show_long_0: "show_long 0 = ''0''"
  by code_simp

lemma send_res_body_unfold:
  "send_res_body b stream =
     (if ferr b then (- 1, stream)
      else if rbuf b = [] then (0, stream)
      else if wfail stream then (- 1, stream)
      else if length (rbuf b) < 1024 then (0, stream\<lparr>wbuf := wbuf stream @ rbuf b\<rparr>)
      else send_res_body (b\<lparr>rbuf := drop 1024 (rbuf b)\<rparr>)
             (stream\<lparr>wbuf := wbuf stream @ take 1024 (rbuf b)\<rparr>))"
  by (subst send_res_body.simps)
    (auto simp add: fread_def fwrite_def ferror_def Let_def min_def)

lemma send_res_body_ok:
  "\<not> wfail stream \<Longrightarrow> \<not> ferr b \<Longrightarrow>
   send_res_body b stream = (0, stream\<lparr>wbuf := wbuf stream @ rbuf b\<rparr>)"
proof (induction "length (rbuf b)" arbitrary: b stream rule: less_induct)
  case less
  show ?case
  proof (cases "length (rbuf b) < 1024")
    case True
    with less.prems show ?thesis
      by (subst send_res_body_unfold) auto
  next
    case False
    let ?b1 = "b\<lparr>rbuf := drop 1024 (rbuf b)\<rparr>"
    let ?s1 = "stream\<lparr>wbuf := wbuf stream @ take 1024 (rbuf b)\<rparr>"
    from False have "length (rbuf ?b1) < length (rbuf b)"
      by simp
    from less.hyps [OF this, of ?s1] less.prems
    have "send_res_body ?b1 ?s1 = (0, ?s1\<lparr>wbuf := wbuf ?s1 @ rbuf ?b1\<rparr>)"
      by simp
    with False less.prems show ?thesis
      by (subst send_res_body_unfold) auto
  qed
qed

lemma send_res_body_appends:
  "\<exists>x. snd (send_res_body b stream) = stream\<lparr>wbuf := wbuf stream @ x\<rparr>"
proof (induction "length (rbuf b)" arbitrary: b stream rule: less_induct)
  case less
  let ?b1 = "b\<lparr>rbuf := drop 1024 (rbuf b)\<rparr>"
  let ?s1 = "stream\<lparr>wbuf := wbuf stream @ take 1024 (rbuf b)\<rparr>"
  show ?case
  proof (cases "\<not> ferr b \<and> rbuf b \<noteq> [] \<and> \<not> wfail stream \<and> \<not> length (rbuf b) < 1024")
    case False
    from False show ?thesis
      by (subst send_res_body_unfold) (auto intro: exI [of _ "[]"] exI [of _ "rbuf b"])
  next
    case True
    then have "length (rbuf ?b1) < length (rbuf b)"
      by simp
    from less.hyps [OF this, of ?s1]
    obtain x where "snd (send_res_body ?b1 ?s1) = ?s1\<lparr>wbuf := wbuf ?s1 @ x\<rparr>"
      by blast
    then have "snd (send_res_body ?b1 ?s1) = stream\<lparr>wbuf := wbuf stream @ take 1024 (rbuf b) @ x\<rparr>"
      by simp
    with True show ?thesis
      by (subst send_res_body_unfold) auto
  qed
qed

lemma send_res_status:
  assumes "\<not> wfail c"
  shows "send_res (Some d) c (status_res n desc) =
    (0, c\<lparr>wbuf := wbuf c @ ''HTTP/1.1 '' @ show_long n @ '' '' @ desc @ CRLF @
           ''Date: '' @ d @ CRLF @ ''Content-Length: 0'' @ CRLF @
           ''Connection: close'' @ CRLF @ CRLF\<rparr>)"
  using assms
  by (simp add: send_res_def status_res_def fprintf_def fflush_def EOF_def show_long_0)

lemma send_res_appends:
  assumes "\<not> wfail c"
  shows "\<exists>x. snd (send_res (Some d) c res) =
           c\<lparr>wbuf := wbuf c @ ''HTTP/1.1 '' @ show_long (code (status_code res)) @ x\<rparr>"
proof -
  define hd1 where "hd1 = '' '' @ description (status_code res) @ CRLF @
      concat (map header_line (res_header res)) @ ''Date: '' @ d @ CRLF @
      ''Content-Length: '' @
      show_long (case res_body res of None \<Rightarrow> 0 | Some b \<Rightarrow> int (length (rbuf b))) @ CRLF @
      ''Connection: close'' @ CRLF @ CRLF"
  define s3 where "s3 = c\<lparr>wbuf := wbuf c @ ''HTTP/1.1 '' @
      show_long (code (status_code res)) @ hd1\<rparr>"
  have "\<exists>y. snd (send_res (Some d) c res) = s3\<lparr>wbuf := wbuf s3 @ y\<rparr>"
  proof (cases "res_body res")
    case None
    with assms have "snd (send_res (Some d) c res) = s3\<lparr>wbuf := wbuf s3 @ []\<rparr>"
      by (simp add: send_res_def fprintf_def fflush_def EOF_def send_headers_ok s3_def hd1_def)
    then show ?thesis ..
  next
    case (Some b)
    obtain x where x: "snd (send_res_body b s3) = s3\<lparr>wbuf := wbuf s3 @ x\<rparr>"
      using send_res_body_appends [of b s3] by blast
    from assms Some have "snd (send_res (Some d) c res) = snd (send_res_body b s3)"
      by (simp add: send_res_def fprintf_def fflush_def EOF_def send_headers_ok s3_def hd1_def
          split: prod.splits)
    with x have "snd (send_res (Some d) c res) = s3\<lparr>wbuf := wbuf s3 @ x\<rparr>"
      by simp
    then show ?thesis ..
  qed
  then obtain y where "snd (send_res (Some d) c res) = s3\<lparr>wbuf := wbuf s3 @ y\<rparr>"
    by blast
  then have "snd (send_res (Some d) c res) =
      c\<lparr>wbuf := wbuf c @ ''HTTP/1.1 '' @ show_long (code (status_code res)) @ (hd1 @ y)\<rparr>"
    by (simp add: s3_def)
  then show ?thesis ..
qed

section \<open>The server and a method other than GET\<close>

text \<open>
  Claim C8: when \<^verbatim>\<open>recv_req\<close> returns a request whose method is not \<^verbatim>\<open>GET\<close>, the server
  sends the response \<open>501 Not implemented\<close> with no body (Content-Length 0) and, as that
  call succeeds, goes on on the same connection: it builds the path of the file, calls
  \<^verbatim>\<open>fopen\<close> and sends the response that belongs to the outcome (404, 403, 500, or 200
  with the file), so a second status line follows the 501 response. The connection
  accepts writes and the allocation of the path succeeds.
\<close>

theorem server_501_then_file:
  assumes recv: "recv_req e connection req0 = (Inr req, c1)"
    and m: "method req \<noteq> HTTP_GET"
    and w: "\<not> wfail c1"
    and h: "heap_ok e"
  shows "\<exists>c2 second.
      send_res (Some d) c1 (status_res 501 ''Not implemented'') = (0, c2)
    \<and> wbuf c2 = wbuf c1 @ ''HTTP/1.1 501 Not implemented'' @ CRLF @ ''Date: '' @ d @ CRLF @
        ''Content-Length: 0'' @ CRLF @ ''Connection: close'' @ CRLF @ CRLF
    \<and> fst (snd (serve_connection args e fopen_r (Some d) connection req0)) =
        fclose (snd (send_res (Some d) c2
          (case fopen_r (resolve_path args req) of
             Inl en \<Rightarrow>
               if en = ENOENT then status_res 404 ''Not Found''
               else if en = EACCES then status_res 403 ''Forbidden''
               else status_res 500 ''Internal Server Error''
           | Inr b \<Rightarrow> file_res (mime_type (resolve_path args req)) b)))
    \<and> wbuf (fst (snd (serve_connection args e fopen_r (Some d) connection req0))) =
        wbuf c2 @ ''HTTP/1.1 '' @ second"
proof -
  define c2 where "c2 = c1\<lparr>wbuf := wbuf c1 @ ''HTTP/1.1 '' @ show_long 501 @ '' '' @
      ''Not implemented'' @ CRLF @ ''Date: '' @ d @ CRLF @ ''Content-Length: 0'' @ CRLF @
      ''Connection: close'' @ CRLF @ CRLF\<rparr>"
  define res2 where "res2 =
     (case fopen_r (resolve_path args req) of
        Inl en \<Rightarrow>
          if en = ENOENT then status_res 404 ''Not Found''
          else if en = EACCES then status_res 403 ''Forbidden''
          else status_res 500 ''Internal Server Error''
      | Inr b \<Rightarrow> file_res (mime_type (resolve_path args req)) b)"
  have s501: "show_long 501 = ''501''"
    by code_simp
  have a: "send_res (Some d) c1 (status_res 501 ''Not implemented'') = (0, c2)"
    unfolding c2_def by (rule send_res_status [OF w])
  have b: "wbuf c2 = wbuf c1 @ ''HTTP/1.1 501 Not implemented'' @ CRLF @ ''Date: '' @ d @ CRLF @
        ''Content-Length: 0'' @ CRLF @ ''Connection: close'' @ CRLF @ CRLF"
    by (simp add: c2_def s501)
  from w have w2: "\<not> wfail c2"
    by (simp add: c2_def)
  have c: "fst (snd (serve_connection args e fopen_r (Some d) connection req0)) =
        fclose (snd (send_res (Some d) c2 res2))"
    using m h
    by (simp add: serve_connection_def recv a res2_def split: sum.splits prod.splits)
  from send_res_appends [OF w2, of d res2]
  obtain x where "snd (send_res (Some d) c2 res2) =
      c2\<lparr>wbuf := wbuf c2 @ ''HTTP/1.1 '' @ show_long (code (status_code res2)) @ x\<rparr>"
    by blast
  with c have e: "wbuf (fst (snd (serve_connection args e fopen_r (Some d) connection req0))) =
      wbuf c2 @ ''HTTP/1.1 '' @ (show_long (code (status_code res2)) @ x)"
    by (simp add: fclose_def)
  from a b c e show ?thesis
    unfolding res2_def by blast
qed

text \<open>
  Claim C8 on the request \<open>POST /x HTTP/1.1\<close> with a file that does not exist: the
  connection carries the 501 response and then the 404 response.
\<close>

theorem server_501_then_file_witness:
  "recv_req \<lparr>errno = 0, heap_ok = True\<rparr> \<lparr>rbuf = ''POST /x HTTP/1.1'' @ CRLF @ CRLF, wbuf = [], wfail = False, ferr = False, closed = False\<rparr> \<lparr>method = HTTP_GET, path = [], header = [], body = None\<rparr> =
     (Inr \<lparr>method = HTTP_POST, path = ''/x'', header = [], body = None\<rparr>, \<lparr>rbuf = [], wbuf = [], wfail = False, ferr = False, closed = False\<rparr>)
   \<and> HTTP_POST \<noteq> HTTP_GET \<and> \<not> wfail \<lparr>rbuf = [], wbuf = [], wfail = False, ferr = False, closed = False\<rparr> \<and> heap_ok \<lparr>errno = 0, heap_ok = True\<rparr>
   \<and> (\<exists>second. wbuf (fst (snd (serve_connection \<lparr>port = ''8080'', doc_root = ''/srv'', index = ''index.html''\<rparr> \<lparr>errno = 0, heap_ok = True\<rparr> (\<lambda>p. Inl ENOENT) (Some ''D'')
          \<lparr>rbuf = ''POST /x HTTP/1.1'' @ CRLF @ CRLF, wbuf = [], wfail = False, ferr = False, closed = False\<rparr> \<lparr>method = HTTP_GET, path = [], header = [], body = None\<rparr>))) = ''HTTP/1.1 501 Not implemented'' @ CRLF @ ''Date: D'' @ CRLF @
        ''Content-Length: 0'' @ CRLF @ ''Connection: close'' @ CRLF @ CRLF @ ''HTTP/1.1 '' @ second)
   \<and> serve_connection \<lparr>port = ''8080'', doc_root = ''/srv'', index = ''index.html''\<rparr> \<lparr>errno = 0, heap_ok = True\<rparr> (\<lambda>p. Inl ENOENT) (Some ''D'') \<lparr>rbuf = ''POST /x HTTP/1.1'' @ CRLF @ CRLF, wbuf = [], wfail = False, ferr = False, closed = False\<rparr> \<lparr>method = HTTP_GET, path = [], header = [], body = None\<rparr> =
       ([], \<lparr>rbuf = [], wbuf = ''HTTP/1.1 501 Not implemented'' @ CRLF @ ''Date: D'' @ CRLF @
        ''Content-Length: 0'' @ CRLF @ ''Connection: close'' @ CRLF @ CRLF @ ''HTTP/1.1 404 Not Found'' @ CRLF @ ''Date: D'' @ CRLF @
        ''Content-Length: 0'' @ CRLF @ ''Connection: close'' @ CRLF @ CRLF, wfail = False, ferr = False, closed = True\<rparr>,
        Continue)"
proof -
  have r: "recv_req \<lparr>errno = 0, heap_ok = True\<rparr> \<lparr>rbuf = ''POST /x HTTP/1.1'' @ CRLF @ CRLF, wbuf = [], wfail = False, ferr = False, closed = False\<rparr> \<lparr>method = HTTP_GET, path = [], header = [], body = None\<rparr> =
     (Inr \<lparr>method = HTTP_POST, path = ''/x'', header = [], body = None\<rparr>, \<lparr>rbuf = [], wbuf = [], wfail = False, ferr = False, closed = False\<rparr>)"
    by code_simp
  have "\<exists>c2 second.
      send_res (Some ''D'') \<lparr>rbuf = [], wbuf = [], wfail = False, ferr = False, closed = False\<rparr> (status_res 501 ''Not implemented'') = (0, c2)
    \<and> wbuf c2 = wbuf \<lparr>rbuf = [], wbuf = [], wfail = False, ferr = False, closed = False\<rparr> @ ''HTTP/1.1 501 Not implemented'' @ CRLF @ ''Date: '' @ ''D'' @ CRLF @
        ''Content-Length: 0'' @ CRLF @ ''Connection: close'' @ CRLF @ CRLF
    \<and> fst (snd (serve_connection \<lparr>port = ''8080'', doc_root = ''/srv'', index = ''index.html''\<rparr> \<lparr>errno = 0, heap_ok = True\<rparr> (\<lambda>p. Inl ENOENT) (Some ''D'') \<lparr>rbuf = ''POST /x HTTP/1.1'' @ CRLF @ CRLF, wbuf = [], wfail = False, ferr = False, closed = False\<rparr> \<lparr>method = HTTP_GET, path = [], header = [], body = None\<rparr>)) =
        fclose (snd (send_res (Some ''D'') c2
          (case (\<lambda>p. Inl ENOENT) (resolve_path \<lparr>port = ''8080'', doc_root = ''/srv'', index = ''index.html''\<rparr>
                  \<lparr>method = HTTP_POST, path = ''/x'', header = [], body = None\<rparr>) of
             Inl en \<Rightarrow>
               if en = ENOENT then status_res 404 ''Not Found''
               else if en = EACCES then status_res 403 ''Forbidden''
               else status_res 500 ''Internal Server Error''
           | Inr b \<Rightarrow> file_res (mime_type (resolve_path \<lparr>port = ''8080'', doc_root = ''/srv'', index = ''index.html''\<rparr>
                  \<lparr>method = HTTP_POST, path = ''/x'', header = [], body = None\<rparr>)) b)))
    \<and> wbuf (fst (snd (serve_connection \<lparr>port = ''8080'', doc_root = ''/srv'', index = ''index.html''\<rparr> \<lparr>errno = 0, heap_ok = True\<rparr> (\<lambda>p. Inl ENOENT) (Some ''D'') \<lparr>rbuf = ''POST /x HTTP/1.1'' @ CRLF @ CRLF, wbuf = [], wfail = False, ferr = False, closed = False\<rparr> \<lparr>method = HTTP_GET, path = [], header = [], body = None\<rparr>))) =
        wbuf c2 @ ''HTTP/1.1 '' @ second"
    by (rule server_501_then_file [OF r]) simp_all
  then have ex: "\<exists>second. wbuf (fst (snd (serve_connection \<lparr>port = ''8080'', doc_root = ''/srv'', index = ''index.html''\<rparr> \<lparr>errno = 0, heap_ok = True\<rparr> (\<lambda>p. Inl ENOENT)
          (Some ''D'') \<lparr>rbuf = ''POST /x HTTP/1.1'' @ CRLF @ CRLF, wbuf = [], wfail = False, ferr = False, closed = False\<rparr> \<lparr>method = HTTP_GET, path = [], header = [], body = None\<rparr>))) = ''HTTP/1.1 501 Not implemented'' @ CRLF @ ''Date: D'' @ CRLF @
        ''Content-Length: 0'' @ CRLF @ ''Connection: close'' @ CRLF @ CRLF @ ''HTTP/1.1 '' @ second"
    by auto
  have run: "serve_connection \<lparr>port = ''8080'', doc_root = ''/srv'', index = ''index.html''\<rparr> \<lparr>errno = 0, heap_ok = True\<rparr> (\<lambda>p. Inl ENOENT) (Some ''D'') \<lparr>rbuf = ''POST /x HTTP/1.1'' @ CRLF @ CRLF, wbuf = [], wfail = False, ferr = False, closed = False\<rparr> \<lparr>method = HTTP_GET, path = [], header = [], body = None\<rparr> =
       ([], \<lparr>rbuf = [], wbuf = ''HTTP/1.1 501 Not implemented'' @ CRLF @ ''Date: D'' @ CRLF @
        ''Content-Length: 0'' @ CRLF @ ''Connection: close'' @ CRLF @ CRLF @ ''HTTP/1.1 404 Not Found'' @ CRLF @ ''Date: D'' @ CRLF @
        ''Content-Length: 0'' @ CRLF @ ''Connection: close'' @ CRLF @ CRLF, wfail = False, ferr = False, closed = True\<rparr>,
        Continue)"
    by code_simp
  from r ex run show ?thesis
    by simp
qed

section \<open>The exit codes of the client\<close>

text \<open>
  Claim C9: after the request has been sent, when \<^verbatim>\<open>recv_res\<close> reports a malformed head
  or malformed headers the client exits with code 2; when the response has a status
  code other than 200 the client prints the code, a space, the description and a line
  feed to standard error and exits with code 3. In both cases nothing is written to
  the output file or to standard output (the output file is only closed).
\<close>

theorem client_exit_codes:
  assumes s: "send_req stream \<lparr>method = HTTP_GET, path = upath,
                 header = [\<lparr>key = ''Host'', val = host\<rparr>], body = None\<rparr> = (r, s1)"
    and r: "r \<noteq> - 1"
  shows "(recv_res e s1 res0 = (Inl err, s2) \<and> (err = MalformedHead \<or> err = MalformedHeaders)
          \<longrightarrow> exit_code (client_exchange e host upath stream outStream stdout res0) = 2
            \<and> out_stream (client_exchange e host upath stream outStream stdout res0)
                = map_option fclose outStream
            \<and> std_out (client_exchange e host upath stream outStream stdout res0) = stdout)
    \<and> (recv_res e s1 res0 = (Inr res, s3) \<and> code (status_code res) \<noteq> 200
          \<longrightarrow> exit_code (client_exchange e host upath stream outStream stdout res0) = 3
            \<and> stderr (client_exchange e host upath stream outStream stdout res0)
                = [Message (show_long (code (status_code res)) @ '' '' @
                            description (status_code res) @ [LF])]
            \<and> out_stream (client_exchange e host upath stream outStream stdout res0)
                = map_option fclose outStream
            \<and> std_out (client_exchange e host upath stream outStream stdout res0) = stdout)"
  using s r by (auto simp add: client_exchange_def)

text \<open>
  Claim C9 on the response \<open>HTTP/1.1 404 Not Found\<close> (exit code 3, the line
  \<open>404 Not Found\<close> on standard error) and on the response \<open>garbage\<close> (exit code 2).
\<close>

theorem client_exit_codes_witness:
  "exit_code (client_exchange \<lparr>errno = 0, heap_ok = True\<rparr> ''h'' ''/'' \<lparr>rbuf = ''HTTP/1.1 404 Not Found'' @ CRLF @ CRLF @ ''gone'', wbuf = [], wfail = False, ferr = False, closed = False\<rparr> None \<lparr>rbuf = [], wbuf = [], wfail = False, ferr = False, closed = False\<rparr> \<lparr>status_code = \<lparr>code = 0, description = []\<rparr>, res_header = [], res_body = None\<rparr>) = 3
   \<and> stderr (client_exchange \<lparr>errno = 0, heap_ok = True\<rparr> ''h'' ''/'' \<lparr>rbuf = ''HTTP/1.1 404 Not Found'' @ CRLF @ CRLF @ ''gone'', wbuf = [], wfail = False, ferr = False, closed = False\<rparr> None \<lparr>rbuf = [], wbuf = [], wfail = False, ferr = False, closed = False\<rparr> \<lparr>status_code = \<lparr>code = 0, description = []\<rparr>, res_header = [], res_body = None\<rparr>)
       = [Message (''404 Not Found'' @ [LF])]
   \<and> std_out (client_exchange \<lparr>errno = 0, heap_ok = True\<rparr> ''h'' ''/'' \<lparr>rbuf = ''HTTP/1.1 404 Not Found'' @ CRLF @ CRLF @ ''gone'', wbuf = [], wfail = False, ferr = False, closed = False\<rparr> None \<lparr>rbuf = [], wbuf = [], wfail = False, ferr = False, closed = False\<rparr> \<lparr>status_code = \<lparr>code = 0, description = []\<rparr>, res_header = [], res_body = None\<rparr>) = \<lparr>rbuf = [], wbuf = [], wfail = False, ferr = False, closed = False\<rparr>
   \<and> exit_code (client_exchange \<lparr>errno = 0, heap_ok = True\<rparr> ''h'' ''/'' \<lparr>rbuf = ''garbage'' @ CRLF, wbuf = [], wfail = False, ferr = False, closed = False\<rparr> None \<lparr>rbuf = [], wbuf = [], wfail = False, ferr = False, closed = False\<rparr> \<lparr>status_code = \<lparr>code = 0, description = []\<rparr>, res_header = [], res_body = None\<rparr>) = 2
   \<and> std_out (client_exchange \<lparr>errno = 0, heap_ok = True\<rparr> ''h'' ''/'' \<lparr>rbuf = ''garbage'' @ CRLF, wbuf = [], wfail = False, ferr = False, closed = False\<rparr> None \<lparr>rbuf = [], wbuf = [], wfail = False, ferr = False, closed = False\<rparr> \<lparr>status_code = \<lparr>code = 0, description = []\<rparr>, res_header = [], res_body = None\<rparr>) = \<lparr>rbuf = [], wbuf = [], wfail = False, ferr = False, closed = False\<rparr>"
proof -
  have s1: "send_req \<lparr>rbuf = ''HTTP/1.1 404 Not Found'' @ CRLF @ CRLF @ ''gone'', wbuf = [], wfail = False, ferr = False, closed = False\<rparr> \<lparr>method = HTTP_GET, path = ''/'',
       header = [\<lparr>key = ''Host'', val = ''h''\<rparr>], body = None\<rparr> =
     (0, \<lparr>rbuf = ''HTTP/1.1 404 Not Found'' @ CRLF @ CRLF @ ''gone'', wbuf = [], wfail = False, ferr = False, closed = False\<rparr>\<lparr>wbuf := ''GET / HTTP/1.1'' @ CRLF @ ''Host: h'' @ CRLF @
           ''Connection: close'' @ CRLF @ CRLF\<rparr>)"
    by code_simp
  have r1: "recv_res \<lparr>errno = 0, heap_ok = True\<rparr> (\<lparr>rbuf = ''HTTP/1.1 404 Not Found'' @ CRLF @ CRLF @ ''gone'', wbuf = [], wfail = False, ferr = False, closed = False\<rparr>\<lparr>wbuf := ''GET / HTTP/1.1'' @ CRLF @ ''Host: h'' @ CRLF @
           ''Connection: close'' @ CRLF @ CRLF\<rparr>) \<lparr>status_code = \<lparr>code = 0, description = []\<rparr>, res_header = [], res_body = None\<rparr> =
     (Inr \<lparr>status_code = \<lparr>code = 404, description = ''Not Found''\<rparr>, res_header = [],
           res_body = None\<rparr>,
      \<lparr>rbuf = [], wbuf = [], wfail = False, ferr = False, closed = False\<rparr>\<lparr>rbuf := ''gone'', wbuf := ''GET / HTTP/1.1'' @ CRLF @ ''Host: h'' @ CRLF @
           ''Connection: close'' @ CRLF @ CRLF\<rparr>)"
    by code_simp
  have s2: "send_req \<lparr>rbuf = ''garbage'' @ CRLF, wbuf = [], wfail = False, ferr = False, closed = False\<rparr> \<lparr>method = HTTP_GET, path = ''/'',
       header = [\<lparr>key = ''Host'', val = ''h''\<rparr>], body = None\<rparr> =
     (0, \<lparr>rbuf = ''garbage'' @ CRLF, wbuf = [], wfail = False, ferr = False, closed = False\<rparr>\<lparr>wbuf := ''GET / HTTP/1.1'' @ CRLF @ ''Host: h'' @ CRLF @
           ''Connection: close'' @ CRLF @ CRLF\<rparr>)"
    by code_simp
  have r2: "recv_res \<lparr>errno = 0, heap_ok = True\<rparr> (\<lparr>rbuf = ''garbage'' @ CRLF, wbuf = [], wfail = False, ferr = False, closed = False\<rparr>\<lparr>wbuf := ''GET / HTTP/1.1'' @ CRLF @ ''Host: h'' @ CRLF @
           ''Connection: close'' @ CRLF @ CRLF\<rparr>) \<lparr>status_code = \<lparr>code = 0, description = []\<rparr>, res_header = [], res_body = None\<rparr> =
     (Inl MalformedHead,
      \<lparr>rbuf = [], wbuf = [], wfail = False, ferr = False, closed = False\<rparr>\<lparr>wbuf := ''GET / HTTP/1.1'' @ CRLF @ ''Host: h'' @ CRLF @
           ''Connection: close'' @ CRLF @ CRLF\<rparr>)"
    by code_simp
  have c404: "show_long 404 = ''404''"
    by code_simp
  from client_exit_codes [OF s1, where e = "\<lparr>errno = 0, heap_ok = True\<rparr>" and ?res0.0 = "\<lparr>status_code = \<lparr>code = 0, description = []\<rparr>, res_header = [], res_body = None\<rparr>"
      and res = "\<lparr>status_code = \<lparr>code = 404, description = ''Not Found''\<rparr>,
           res_header = [], res_body = None\<rparr>"
      and ?s3.0 = "\<lparr>rbuf = [], wbuf = [], wfail = False, ferr = False, closed = False\<rparr>\<lparr>rbuf := ''gone'', wbuf := ''GET / HTTP/1.1'' @ CRLF @ ''Host: h'' @ CRLF @
           ''Connection: close'' @ CRLF @ CRLF\<rparr>"
      and outStream = None and stdout = "\<lparr>rbuf = [], wbuf = [], wfail = False, ferr = False, closed = False\<rparr>"] r1 c404
  have a: "exit_code (client_exchange \<lparr>errno = 0, heap_ok = True\<rparr> ''h'' ''/'' \<lparr>rbuf = ''HTTP/1.1 404 Not Found'' @ CRLF @ CRLF @ ''gone'', wbuf = [], wfail = False, ferr = False, closed = False\<rparr> None \<lparr>rbuf = [], wbuf = [], wfail = False, ferr = False, closed = False\<rparr> \<lparr>status_code = \<lparr>code = 0, description = []\<rparr>, res_header = [], res_body = None\<rparr>) = 3
   \<and> stderr (client_exchange \<lparr>errno = 0, heap_ok = True\<rparr> ''h'' ''/'' \<lparr>rbuf = ''HTTP/1.1 404 Not Found'' @ CRLF @ CRLF @ ''gone'', wbuf = [], wfail = False, ferr = False, closed = False\<rparr> None \<lparr>rbuf = [], wbuf = [], wfail = False, ferr = False, closed = False\<rparr> \<lparr>status_code = \<lparr>code = 0, description = []\<rparr>, res_header = [], res_body = None\<rparr>)
       = [Message (''404 Not Found'' @ [LF])]
   \<and> std_out (client_exchange \<lparr>errno = 0, heap_ok = True\<rparr> ''h'' ''/'' \<lparr>rbuf = ''HTTP/1.1 404 Not Found'' @ CRLF @ CRLF @ ''gone'', wbuf = [], wfail = False, ferr = False, closed = False\<rparr> None \<lparr>rbuf = [], wbuf = [], wfail = False, ferr = False, closed = False\<rparr> \<lparr>status_code = \<lparr>code = 0, description = []\<rparr>, res_header = [], res_body = None\<rparr>) = \<lparr>rbuf = [], wbuf = [], wfail = False, ferr = False, closed = False\<rparr>"
    by simp
  from client_exit_codes [OF s2, where e = "\<lparr>errno = 0, heap_ok = True\<rparr>" and ?res0.0 = "\<lparr>status_code = \<lparr>code = 0, description = []\<rparr>, res_header = [], res_body = None\<rparr>"
      and err = MalformedHead
      and ?s2.0 = "\<lparr>rbuf = [], wbuf = [], wfail = False, ferr = False, closed = False\<rparr>\<lparr>wbuf := ''GET / HTTP/1.1'' @ CRLF @ ''Host: h'' @ CRLF @
           ''Connection: close'' @ CRLF @ CRLF\<rparr>"
      and outStream = None and stdout = "\<lparr>rbuf = [], wbuf = [], wfail = False, ferr = False, closed = False\<rparr>"] r2
  have b: "exit_code (client_exchange \<lparr>errno = 0, heap_ok = True\<rparr> ''h'' ''/'' \<lparr>rbuf = ''garbage'' @ CRLF, wbuf = [], wfail = False, ferr = False, closed = False\<rparr> None \<lparr>rbuf = [], wbuf = [], wfail = False, ferr = False, closed = False\<rparr> \<lparr>status_code = \<lparr>code = 0, description = []\<rparr>, res_header = [], res_body = None\<rparr>) = 2
   \<and> std_out (client_exchange \<lparr>errno = 0, heap_ok = True\<rparr> ''h'' ''/'' \<lparr>rbuf = ''garbage'' @ CRLF, wbuf = [], wfail = False, ferr = False, closed = False\<rparr> None \<lparr>rbuf = [], wbuf = [], wfail = False, ferr = False, closed = False\<rparr> \<lparr>status_code = \<lparr>code = 0, description = []\<rparr>, res_header = [], res_body = None\<rparr>) = \<lparr>rbuf = [], wbuf = [], wfail = False, ferr = False, closed = False\<rparr>"
    by simp
  from a b show ?thesis
    by simp
qed

section \<open>A connection closed before any data\<close>




end
